theory Spec2Isabelle
  imports Main "HOL-Library.Sublist"
begin

section \<open>Data model of the view-mode plugin (main.ts)\<close>

text \<open>
  \<^verbatim>\<open>type ViewMode = 'read' | 'edit' | 'edit-source' | 'edit-preview' | 'lock'\<close>
\<close>

datatype ViewMode = Read | Edit | EditSource | EditPreview | Lock

text \<open>\<^verbatim>\<open>interface FolderViewMode { folderPath: string; viewMode: ViewMode }\<close>\<close>

record FolderViewMode =
  folderPath :: string
  viewMode :: ViewMode

text \<open>The five frontmatter tokens, \<^verbatim>\<open>settings.customYamlNames\<close>.\<close>

record CustomYamlNames =
  read :: string
  edit :: string
  editSource :: string
  editPreview :: string
  lock :: string

record ViewModeSettings =
  metaPropertyName :: string
  showModeChangeNotification :: bool
  folderViewModes :: "FolderViewMode list"
  customYamlNames :: CustomYamlNames

definition DEFAULT_SETTINGS :: ViewModeSettings where
  "DEFAULT_SETTINGS =
     \<lparr>metaPropertyName = ''view_mode'',
      showModeChangeNotification = False,
      folderViewModes = [],
      customYamlNames =
        \<lparr>read = ''read_only'', edit = ''edit_mode'', editSource = ''edit_source'',
         editPreview = ''edit_preview'', lock = ''locked''\<rparr>\<rparr>"

text \<open>
  A frontmatter value is \<^verbatim>\<open>unknown\<close> to the plugin; only \<^verbatim>\<open>typeof value === 'string'\<close>
  is ever asked of it. A missing property reads as \<^verbatim>\<open>undefined\<close>, here \<open>None\<close>.
\<close>

datatype YamlValue = YString string | YNumber int | YBool bool | YNull

type_synonym FrontMatter = "string \<rightharpoonup> YamlValue"

record CachedMetadata =
  frontmatter :: "FrontMatter option"

record TFile =
  path :: string
  basename :: string
  extension :: string

text \<open>
  \<^verbatim>\<open>interface ViewState { mode?: 'preview' | 'source'; source?: boolean; [key: string]: unknown }\<close>
  and \<^verbatim>\<open>interface ViewStateResult { history: boolean; ... }\<close>. The remaining keys of a
  view state are kept as an association list the plugin never looks into.
\<close>

datatype DisplayMode = Preview | Source

record ViewState =
  mode :: "DisplayMode option"
  source :: "bool option"
  others :: "(string \<times> string) list"

record ViewStateResult =
  history :: bool

section \<open>Strings: the JavaScript operations the resolver uses\<close>

text \<open>\<^verbatim>\<open>s.lastIndexOf(c)\<close>: the index of the last occurrence, or \<open>-1\<close>.\<close>

fun lastIndexOf :: "string \<Rightarrow> char \<Rightarrow> int" where
  "lastIndexOf [] c = - 1"
| "lastIndexOf (x # xs) c =
     (if 0 \<le> lastIndexOf xs c then lastIndexOf xs c + 1
      else if x = c then 0 else - 1)"

text \<open>
  \<^verbatim>\<open>s.substring(a, b)\<close>: both indices are clamped to \<open>[0, length]\<close> and swapped when
  \<open>a > b\<close>; so \<^verbatim>\<open>substring(0, -1)\<close> is the empty string.
\<close>

definition clampIndex :: "string \<Rightarrow> int \<Rightarrow> nat" where
  "clampIndex s i = min (nat i) (length s)"

definition substring :: "string \<Rightarrow> int \<Rightarrow> int \<Rightarrow> string" where
  "substring s a b =
     (let lo = min (clampIndex s a) (clampIndex s b);
          hi = max (clampIndex s a) (clampIndex s b)
      in take (hi - lo) (drop lo s))"

text \<open>\<^verbatim>\<open>s.startsWith(p)\<close>\<close>

definition startsWith :: "string \<Rightarrow> string \<Rightarrow> bool" where
  "startsWith s p = (take (length p) s = p)"

section \<open>Mode resolution\<close>

text \<open>
  \<^verbatim>\<open>getFolderViewMode(filePath)\<close>: the folder is everything before the last slash; the
  rules are tried in list order and the first match returns.
\<close>

fun getFolderViewMode_loop :: "string \<Rightarrow> FolderViewMode list \<Rightarrow> ViewMode option" where
  "getFolderViewMode_loop fp [] = None"
| "getFolderViewMode_loop fp (r # rs) =
     (if fp = folderPath r \<or> startsWith fp (folderPath r @ ''/'')
      then Some (viewMode r)
      else getFolderViewMode_loop fp rs)"

definition folderOf :: "string \<Rightarrow> string" where
  "folderOf filePath = substring filePath 0 (lastIndexOf filePath CHR ''/'')"

definition getFolderViewMode :: "ViewModeSettings \<Rightarrow> string \<Rightarrow> ViewMode option" where
  "getFolderViewMode s filePath = getFolderViewMode_loop (folderOf filePath) (folderViewModes s)"

text \<open>\<^verbatim>\<open>isValidViewMode(value: unknown)\<close>\<close>

definition isValidViewMode :: "ViewModeSettings \<Rightarrow> YamlValue option \<Rightarrow> bool" where
  "isValidViewMode s v =
     (case v of
        Some (YString str) \<Rightarrow>
          str = read (customYamlNames s) \<or> str = edit (customYamlNames s) \<or>
          str = editSource (customYamlNames s) \<or> str = editPreview (customYamlNames s) \<or>
          str = lock (customYamlNames s)
      | _ \<Rightarrow> False)"

text \<open>\<^verbatim>\<open>convertYamlValueToViewMode(value: string)\<close>: the first token that is equal wins.\<close>

definition convertYamlValueToViewMode :: "ViewModeSettings \<Rightarrow> string \<Rightarrow> ViewMode option" where
  "convertYamlValueToViewMode s v =
     (if v = read (customYamlNames s) then Some Read
      else if v = edit (customYamlNames s) then Some Edit
      else if v = editSource (customYamlNames s) then Some EditSource
      else if v = editPreview (customYamlNames s) then Some EditPreview
      else if v = lock (customYamlNames s) then Some Lock
      else None)"

text \<open>
  The block that the file-open handler, \<^verbatim>\<open>checkAndEnforceLockedFiles\<close> and
  \<^verbatim>\<open>initializeLockedFiles\<close> each carry inline: the frontmatter first, and the folder
  rules when that gave no mode (\<^verbatim>\<open>if (!viewMode)\<close>; no mode name is an empty string).
  A member that the frontmatter object only inherits is a function or an object, never a
  string, so \<^verbatim>\<open>isValidViewMode\<close> answers for it as for a missing property.
\<close>

definition frontmatterViewMode :: "ViewModeSettings \<Rightarrow> CachedMetadata option \<Rightarrow> ViewMode option" where
  "frontmatterViewMode s cache =
     (case cache of
        None \<Rightarrow> None
      | Some c \<Rightarrow>
          (case frontmatter c of
             None \<Rightarrow> None
           | Some fm \<Rightarrow>
               (if isValidViewMode s (fm (metaPropertyName s))
                then (case fm (metaPropertyName s) of
                        Some (YString str) \<Rightarrow> convertYamlValueToViewMode s str
                      | _ \<Rightarrow> None)
                else None)))"

definition resolveViewMode ::
  "ViewModeSettings \<Rightarrow> CachedMetadata option \<Rightarrow> string \<Rightarrow> ViewMode option" where
  "resolveViewMode s cache filePath =
     (case frontmatterViewMode s cache of
        Some m \<Rightarrow> Some m
      | None \<Rightarrow> getFolderViewMode s filePath)"

section \<open>Views, the plugin and the workspace\<close>

text \<open>
  What \<^verbatim>\<open>view.setState\<close> currently is: the host's own method, or the closure that
  \<^verbatim>\<open>patchViewStateMethod\<close> installs around the method it found. The closure forwards to
  \<^verbatim>\<open>_originalSetState\<close>, which is written once, in the same step that installs the
  closure; the method it forwards to is therefore kept inside the closure.
\<close>

datatype Setter = HostSetState | GuardedSetState Setter

text \<open>
  A \<^verbatim>\<open>MarkdownView\<close>: its file (field \<open>viewFile\<close>), the state \<^verbatim>\<open>getState()\<close> returns,
  the \<^verbatim>\<open>setState\<close> slot, the \<^verbatim>\<open>_originalSetState\<close> slot, and the calls that reached the
  host's method, oldest
  first. The host is taken to adopt the state it is given.
\<close>

record MarkdownView =
  viewFile :: "TFile option"
  state :: ViewState
  setState :: Setter
  originalSetState :: "Setter option"
  hostCalls :: "(ViewState \<times> ViewStateResult) list"

text \<open>
  The plugin object together with what it reaches through \<^verbatim>\<open>this.app\<close>: the active
  markdown view, the metadata cache, the notices shown so far (oldest first) and whether
  the edit buttons carry the class \<^verbatim>\<open>view-mode-hidden\<close>.
\<close>

record World =
  settings :: ViewModeSettings
  livePreviewConfig :: bool
  lockedFiles :: "string set"
  temporarilyUnlockedFiles :: "string set"
  activeView :: "MarkdownView option"
  getFileCache :: "TFile \<Rightarrow> CachedMetadata option"
  notices :: "string list"
  editButtonsHidden :: bool

text \<open>The notice texts; \<^verbatim>\<open>view.file?.basename\<close> of a view without a file prints as undefined.\<close>

definition quoted :: "string \<Rightarrow> string" where
  "quoted b = ''File '' @ [CHR 0x22] @ b @ [CHR 0x22]"

definition basenameOf :: "TFile option \<Rightarrow> string" where
  "basenameOf f = (case f of None \<Rightarrow> ''undefined'' | Some t \<Rightarrow> basename t)"

definition lockedNotice :: "TFile option \<Rightarrow> string" where
  "lockedNotice f = quoted (basenameOf f) @ '' is locked and cannot be modified''"

definition readNotice :: "TFile option \<Rightarrow> string" where
  "readNotice f = quoted (basenameOf f) @ '' is in read-only mode''"

definition editNotice :: "TFile option \<Rightarrow> bool \<Rightarrow> string" where
  "editNotice f lp =
     quoted (basenameOf f) @ '' is in edit mode ('' @
       (if lp then ''live preview'' else ''source'') @ '')''"

definition editSourceNotice :: "TFile option \<Rightarrow> string" where
  "editSourceNotice f = quoted (basenameOf f) @ '' is in source edit mode''"

definition editPreviewNotice :: "TFile option \<Rightarrow> string" where
  "editPreviewNotice f = quoted (basenameOf f) @ '' is in live preview edit mode''"

definition notify :: "string \<Rightarrow> World \<Rightarrow> World" where
  "notify msg w = w\<lparr>notices := notices w @ [msg]\<rparr>"

section \<open>The state-setter wrapper\<close>

text \<open>
  The test of the installed closure:
  \<^verbatim>\<open>filePath && this.lockedFiles.has(filePath) && !this.temporarilyUnlockedFiles.has(filePath)\<close>.
  A view without a file, or an empty path, is falsy.
\<close>

definition guardApplies :: "World \<Rightarrow> MarkdownView \<Rightarrow> bool" where
  "guardApplies w v =
     (case viewFile v of
        None \<Rightarrow> False
      | Some f \<Rightarrow>
          path f \<noteq> [] \<and> path f \<in> lockedFiles w \<and> path f \<notin> temporarilyUnlockedFiles w)"

text \<open>\<^verbatim>\<open>state.mode && state.mode !== 'preview'\<close>\<close>

definition asksToLeavePreview :: "ViewState \<Rightarrow> bool" where
  "asksToLeavePreview st = (case mode st of None \<Rightarrow> False | Some m \<Rightarrow> m \<noteq> Preview)"

text \<open>
  Calling a \<^verbatim>\<open>setState\<close> method on a view. The host's method records the call and adopts
  the state; the closure rewrites the request and shows the notice first.
\<close>

primrec callSetState ::
  "Setter \<Rightarrow> World \<Rightarrow> MarkdownView \<Rightarrow> ViewState \<Rightarrow> ViewStateResult \<Rightarrow> World \<times> MarkdownView" where
  "callSetState HostSetState w v st res =
     (w, v\<lparr>state := st, hostCalls := hostCalls v @ [(st, res)]\<rparr>)"
| "callSetState (GuardedSetState orig) w v st res =
     (if guardApplies w v \<and> asksToLeavePreview st
      then callSetState orig (notify (lockedNotice (viewFile v)) w) v (st\<lparr>mode := Some Preview\<rparr>) res
      else callSetState orig w v st res)"

text \<open>\<^verbatim>\<open>patchViewStateMethod(view)\<close>\<close>

definition patchViewStateMethod :: "MarkdownView \<Rightarrow> MarkdownView" where
  "patchViewStateMethod v =
     (if originalSetState v = None
      then v\<lparr>originalSetState := Some (setState v), setState := GuardedSetState (setState v)\<rparr>
      else v)"

section \<open>The lock registry\<close>

text \<open>\<^verbatim>\<open>isFileLocked(filePath)\<close>\<close>

definition isFileLocked :: "World \<Rightarrow> string \<Rightarrow> bool" where
  "isFileLocked w filePath = (filePath \<in> lockedFiles w)"

text \<open>\<^verbatim>\<open>this.lockedFiles.add(filePath)\<close>, as the lock case of \<^verbatim>\<open>setViewMode\<close> does it.\<close>

definition addLocked :: "string \<Rightarrow> World \<Rightarrow> World" where
  "addLocked filePath w = w\<lparr>lockedFiles := insert filePath (lockedFiles w)\<rparr>"

text \<open>\<^verbatim>\<open>updateEditButtonsVisibility()\<close>\<close>

definition updateEditButtonsVisibility :: "World \<Rightarrow> World" where
  "updateEditButtonsVisibility w =
     (case activeView w of
        None \<Rightarrow> w
      | Some v \<Rightarrow>
          (case viewFile v of
             None \<Rightarrow> w
           | Some f \<Rightarrow>
               w\<lparr>editButtonsHidden :=
                    isFileLocked w (path f) \<and> path f \<notin> temporarilyUnlockedFiles w\<rparr>))"

text \<open>\<^verbatim>\<open>handleLeafChange()\<close>\<close>

definition handleLeafChange :: "World \<Rightarrow> World" where
  "handleLeafChange w =
     updateEditButtonsVisibility
       (if temporarilyUnlockedFiles w \<noteq> {} then w\<lparr>temporarilyUnlockedFiles := {}\<rparr> else w)"

text \<open>\<^verbatim>\<open>unlockFile(filePath)\<close>\<close>

definition unlockFile :: "string \<Rightarrow> World \<Rightarrow> World" where
  "unlockFile filePath w =
     (let w1 = w\<lparr>lockedFiles := lockedFiles w - {filePath},
                 temporarilyUnlockedFiles := insert filePath (temporarilyUnlockedFiles w)\<rparr>
      in updateEditButtonsVisibility
           (case activeView w1 of
              None \<Rightarrow> w1
            | Some v \<Rightarrow>
                (case viewFile v of
                   None \<Rightarrow> w1
                 | Some f \<Rightarrow>
                     (if path f = filePath
                      then (case callSetState (setState v) w1 v
                                   ((state v)\<lparr>mode := Some Source,
                                              source := Some (\<not> livePreviewConfig w1)\<rparr>)
                                   \<lparr>history = False\<rparr> of
                              (w2, v2) \<Rightarrow> w2\<lparr>activeView := Some v2\<rparr>)
                      else w1))))"

section \<open>Applying a mode\<close>

text \<open>
  \<^verbatim>\<open>setViewMode(view, viewMode)\<close>: read the state, install the wrapper, fill in the state by
  the mode, and write it through \<^verbatim>\<open>view.setState\<close> with \<^verbatim>\<open>{ history: false }\<close>.
\<close>

definition notifyIfEnabled :: "string \<Rightarrow> World \<Rightarrow> World" where
  "notifyIfEnabled msg w = (if showModeChangeNotification (settings w) then notify msg w else w)"

definition lockKey :: "MarkdownView \<Rightarrow> string" where
  "lockKey v = (case viewFile v of None \<Rightarrow> [] | Some f \<Rightarrow> path f)"

fun modeEffect :: "ViewMode \<Rightarrow> World \<Rightarrow> MarkdownView \<Rightarrow> ViewState \<Rightarrow> World \<times> ViewState" where
  "modeEffect Read w v st =
     (notifyIfEnabled (readNotice (viewFile v)) w, st\<lparr>mode := Some Preview\<rparr>)"
| "modeEffect Edit w v st =
     (notifyIfEnabled (editNotice (viewFile v) (livePreviewConfig w)) w,
      st\<lparr>mode := Some Source, source := Some (\<not> livePreviewConfig w)\<rparr>)"
| "modeEffect EditSource w v st =
     (notifyIfEnabled (editSourceNotice (viewFile v)) w,
      st\<lparr>mode := Some Source, source := Some True\<rparr>)"
| "modeEffect EditPreview w v st =
     (notifyIfEnabled (editPreviewNotice (viewFile v)) w,
      st\<lparr>mode := Some Source, source := Some False\<rparr>)"
| "modeEffect Lock w v st =
     (notifyIfEnabled (lockedNotice (viewFile v)) (addLocked (lockKey v) w),
      st\<lparr>mode := Some Preview\<rparr>)"

definition setViewMode :: "World \<Rightarrow> MarkdownView \<Rightarrow> ViewMode \<Rightarrow> World \<times> MarkdownView" where
  "setViewMode w view vm =
     (let st = state view;
          v1 = patchViewStateMethod view
      in case modeEffect vm w v1 st of
           (w1, st1) \<Rightarrow> callSetState (setState v1) w1 v1 st1 \<lparr>history = False\<rparr>)"

section \<open>Enforcement\<close>

text \<open>
  The step both branches of \<^verbatim>\<open>checkAndEnforceLockedFiles\<close> share:
  \<^verbatim>\<open>if (currentState.mode !== 'preview') { currentState.mode = 'preview';
  activeView.setState(currentState, { history: false }); new Notice(...) }\<close>
\<close>

definition forcePreview :: "World \<Rightarrow> MarkdownView \<Rightarrow> World \<times> MarkdownView" where
  "forcePreview w v =
     (if mode (state v) = Some Preview then (w, v)
      else (case callSetState (setState v) w v ((state v)\<lparr>mode := Some Preview\<rparr>)
                   \<lparr>history = False\<rparr> of
              (w1, v1) \<Rightarrow> (notify (lockedNotice (viewFile v)) w1, v1)))"

text \<open>\<^verbatim>\<open>checkAndEnforceLockedFiles()\<close>\<close>

definition checkAndEnforceLockedFiles :: "World \<Rightarrow> World" where
  "checkAndEnforceLockedFiles w =
     (case activeView w of
        None \<Rightarrow> w
      | Some v \<Rightarrow>
          (case viewFile v of
             None \<Rightarrow> w
           | Some f \<Rightarrow>
               (if path f \<in> temporarilyUnlockedFiles w then w
                else
                  (case (if path f \<in> lockedFiles w then forcePreview w v else (w, v)) of
                     (w1, v1) \<Rightarrow>
                       (case (if resolveViewMode (settings w1) (getFileCache w1 f) (path f) = Some Lock
                                 \<and> path f \<notin> lockedFiles w1
                                 \<and> path f \<notin> temporarilyUnlockedFiles w1
                              then forcePreview (addLocked (path f) w1) v1
                              else (w1, v1)) of
                          (w2, v2) \<Rightarrow>
                            updateEditButtonsVisibility (w2\<lparr>activeView := Some v2\<rparr>))))))"

text \<open>
  The handlers \<^verbatim>\<open>onload\<close> registers: layout-change, active-leaf-change, resize, and the
  callback of \<^verbatim>\<open>window.setInterval(..., 1000)\<close>.
\<close>

definition onLayoutChange :: "World \<Rightarrow> World" where
  "onLayoutChange w = checkAndEnforceLockedFiles w"

definition onActiveLeafChange :: "World \<Rightarrow> World" where
  "onActiveLeafChange w = handleLeafChange (checkAndEnforceLockedFiles w)"

definition onResize :: "World \<Rightarrow> World" where
  "onResize w = checkAndEnforceLockedFiles w"

definition onInterval :: "World \<Rightarrow> World" where
  "onInterval w =
     updateEditButtonsVisibility
       (if temporarilyUnlockedFiles w = {} then checkAndEnforceLockedFiles w else w)"

text \<open>The second layout-change listener, run 10 ms later.\<close>

definition onLayoutChangeDelayed :: "World \<Rightarrow> World" where
  "onLayoutChangeDelayed w =
     (case activeView w of
        None \<Rightarrow> w
      | Some v \<Rightarrow>
          (case viewFile v of
             None \<Rightarrow> w
           | Some f \<Rightarrow>
               (if path f \<in> lockedFiles w \<and> path f \<notin> temporarilyUnlockedFiles w
                then (if mode (state v) = Some Preview then w
                      else (case callSetState (setState v) w v ((state v)\<lparr>mode := Some Preview\<rparr>)
                                   \<lparr>history = False\<rparr> of
                              (w1, v1) \<Rightarrow> w1\<lparr>activeView := Some v1\<rparr>))
                else w)))"

text \<open>
  The file-open listener, that is the callback it schedules 100 ms later. \<^verbatim>\<open>view.file !== file\<close>
  compares the two file objects.
\<close>

definition onFileOpen :: "TFile option \<Rightarrow> World \<Rightarrow> World" where
  "onFileOpen fo w =
     (case fo of
        None \<Rightarrow> w
      | Some f \<Rightarrow>
          (if extension f = ''md''
           then (case resolveViewMode (settings w) (getFileCache w f) (path f) of
                   None \<Rightarrow> w
                 | Some vm \<Rightarrow>
                     (case activeView w of
                        None \<Rightarrow> w
                      | Some view \<Rightarrow>
                          (if viewFile view = Some f
                           then (case setViewMode w view vm of
                                   (w1, v1) \<Rightarrow>
                                     updateEditButtonsVisibility (w1\<lparr>activeView := Some v1\<rparr>))
                           else w)))
           else w))"

section \<open>The earlier revision of the plugin (class MyPlugin)\<close>

text \<open>
  The second source file keeps an earlier revision. It has no \<^verbatim>\<open>customYamlNames\<close> and never
  calls a validity test: each of its three resolution blocks does
  \<^verbatim>\<open>viewMode = fileCache.frontmatter[this.settings.metaPropertyName]\<close> and asks the folder
  rules only under \<^verbatim>\<open>if (!viewMode)\<close>. Its other settings are those of the current revision,
  and its folder rules hold one of the five mode names, which the settings tab's dropdown
  writes; \<open>ViewModeSettings\<close> and \<open>getFolderViewMode\<close> are used for it as they are
  (\<^verbatim>\<open>getFolderViewMode\<close> is the same text in both files).

  The frontmatter is a plain object, so \<^verbatim>\<open>frontmatter[name]\<close> gives the value stored under
  the name or, when none is stored, the member of that name that every object inherits
  from \<^verbatim>\<open>Object.prototype\<close>: a function, or for \<^verbatim>\<open>__proto__\<close> the prototype itself.
\<close>

definition objectPrototypeMembers :: "string list" where
  "objectPrototypeMembers =
     [''constructor'', ''hasOwnProperty'', ''isPrototypeOf'', ''propertyIsEnumerable'',
      ''toLocaleString'', ''toString'', ''valueOf'', ''__proto__'',
      ''__defineGetter__'', ''__defineSetter__'', ''__lookupGetter__'', ''__lookupSetter__'']"

datatype JsValue = Stored YamlValue | PrototypeMember string

definition getProperty :: "FrontMatter \<Rightarrow> string \<Rightarrow> JsValue option" where
  "getProperty fm name =
     (case fm name of
        Some v \<Rightarrow> Some (Stored v)
      | None \<Rightarrow> (if name \<in> set objectPrototypeMembers then Some (PrototypeMember name) else None))"

text \<open>What \<^verbatim>\<open>!viewMode\<close> negates: functions and objects are truthy.\<close>

definition truthy :: "JsValue \<Rightarrow> bool" where
  "truthy v =
     (case v of
        Stored (YString str) \<Rightarrow> str \<noteq> []
      | Stored (YNumber n) \<Rightarrow> n \<noteq> 0
      | Stored (YBool b) \<Rightarrow> b
      | Stored YNull \<Rightarrow> False
      | PrototypeMember name \<Rightarrow> True)"

datatype RawMode = FromFrontmatter JsValue | FromFolder ViewMode

definition rawFrontmatterMode :: "ViewModeSettings \<Rightarrow> CachedMetadata option \<Rightarrow> JsValue option" where
  "rawFrontmatterMode s cache =
     (case cache of
        None \<Rightarrow> None
      | Some c \<Rightarrow>
          (case frontmatter c of
             None \<Rightarrow> None
           | Some fm \<Rightarrow> getProperty fm (metaPropertyName s)))"

definition resolveViewMode_MyPlugin ::
  "ViewModeSettings \<Rightarrow> CachedMetadata option \<Rightarrow> string \<Rightarrow> RawMode option" where
  "resolveViewMode_MyPlugin s cache filePath =
     (case rawFrontmatterMode s cache of
        None \<Rightarrow> map_option FromFolder (getFolderViewMode s filePath)
      | Some v \<Rightarrow>
          (if truthy v then Some (FromFrontmatter v)
           else map_option FromFolder (getFolderViewMode s filePath)))"

section \<open>The specification's vocabulary\<close>

text \<open>
  The token the settings hold for a mode, the five tokens, and the string the frontmatter
  holds under the configured property name (if it holds a string there).
\<close>

definition yamlName :: "ViewModeSettings \<Rightarrow> ViewMode \<Rightarrow> string" where
  "yamlName s m =
     (case m of
        Read \<Rightarrow> read (customYamlNames s)
      | Edit \<Rightarrow> edit (customYamlNames s)
      | EditSource \<Rightarrow> editSource (customYamlNames s)
      | EditPreview \<Rightarrow> editPreview (customYamlNames s)
      | Lock \<Rightarrow> lock (customYamlNames s))"

definition configuredTokens :: "ViewModeSettings \<Rightarrow> string list" where
  "configuredTokens s = map (yamlName s) [Read, Edit, EditSource, EditPreview, Lock]"

definition frontmatterToken :: "ViewModeSettings \<Rightarrow> CachedMetadata option \<Rightarrow> string option" where
  "frontmatterToken s cache =
     (case cache of
        None \<Rightarrow> None
      | Some c \<Rightarrow>
          (case frontmatter c of
             None \<Rightarrow> None
           | Some fm \<Rightarrow>
               (case fm (metaPropertyName s) of
                  Some (YString v) \<Rightarrow> Some v
                | _ \<Rightarrow> None)))"

text \<open>
  The registry's two operations as the specification names them: \<open>markLocked\<close> is
  \<^verbatim>\<open>this.lockedFiles.add(id)\<close>, and the only code that adds to
  \<^verbatim>\<open>temporarilyUnlockedFiles\<close> is \<^verbatim>\<open>unlockFile(id)\<close>. \<open>isEnforcedLocked\<close> is the
  specification's query.
\<close>

datatype RegistryCall = MarkLocked string | MarkTemporarilyUnlocked string

fun registryCall :: "RegistryCall \<Rightarrow> World \<Rightarrow> World" where
  "registryCall (MarkLocked f) w = addLocked f w"
| "registryCall (MarkTemporarilyUnlocked f) w = unlockFile f w"

definition registryCalls :: "RegistryCall list \<Rightarrow> World \<Rightarrow> World" where
  "registryCalls cs w = fold registryCall cs w"

definition isEnforcedLocked :: "World \<Rightarrow> string \<Rightarrow> bool" where
  "isEnforcedLocked w f = (f \<in> lockedFiles w \<and> f \<notin> temporarilyUnlockedFiles w)"

text \<open>The specification's mode table: the state a mode asks for, from the state read.\<close>

definition modeTable :: "bool \<Rightarrow> ViewMode \<Rightarrow> ViewState \<Rightarrow> ViewState" where
  "modeTable livePreview vm st =
     (case vm of
        Read \<Rightarrow> st\<lparr>mode := Some Preview\<rparr>
      | Edit \<Rightarrow> st\<lparr>mode := Some Source, source := Some (\<not> livePreview)\<rparr>
      | EditSource \<Rightarrow> st\<lparr>mode := Some Source, source := Some True\<rparr>
      | EditPreview \<Rightarrow> st\<lparr>mode := Some Source, source := Some False\<rparr>
      | Lock \<Rightarrow> st\<lparr>mode := Some Preview\<rparr>)"

section \<open>Concrete inputs\<close>

definition referenceSettings :: ViewModeSettings where
  "referenceSettings =
     DEFAULT_SETTINGS\<lparr>folderViewModes := [\<lparr>folderPath = ''Reference'', viewMode = Read\<rparr>]\<rparr>"

definition threeRuleSettings :: ViewModeSettings where
  "threeRuleSettings =
     DEFAULT_SETTINGS\<lparr>folderViewModes :=
       [\<lparr>folderPath = ''Similar'', viewMode = Lock\<rparr>,
        \<lparr>folderPath = ''Reference/Sub'', viewMode = Edit\<rparr>,
        \<lparr>folderPath = ''Reference'', viewMode = Read\<rparr>]\<rparr>"

definition cacheWith :: "string \<Rightarrow> YamlValue \<Rightarrow> CachedMetadata option" where
  "cacheWith k v = Some \<lparr>frontmatter = Some (Map.empty(k \<mapsto> v))\<rparr>"

definition mdFile :: "string \<Rightarrow> string \<Rightarrow> TFile" where
  "mdFile p b = \<lparr>path = p, basename = b, extension = ''md''\<rparr>"

definition sourceState :: ViewState where
  "sourceState = \<lparr>mode = Some Source, source = Some False, others = [(''file'', ''B.md'')]\<rparr>"

definition freshView :: "TFile \<Rightarrow> ViewState \<Rightarrow> MarkdownView" where
  "freshView f st =
     \<lparr>viewFile = Some f, state = st, setState = HostSetState, originalSetState = None,
      hostCalls = []\<rparr>"

definition noCache :: "TFile \<Rightarrow> CachedMetadata option" where
  "noCache f = None"

definition emptyWorld :: World where
  "emptyWorld =
     \<lparr>settings = DEFAULT_SETTINGS, livePreviewConfig = True, lockedFiles = {},
      temporarilyUnlockedFiles = {}, activeView = None, getFileCache = noCache,
      notices = [], editButtonsHidden = False\<rparr>"

text \<open>
  \<open>A.md\<close> was unlocked for the session; the active view shows the locked \<open>B.md\<close>, which
  something has put into source mode.
\<close>

definition otherUnlockedWorld :: World where
  "otherUnlockedWorld =
     emptyWorld\<lparr>lockedFiles := {''B.md''}, temporarilyUnlockedFiles := {''A.md''},
                activeView := Some (freshView (mdFile ''B.md'' ''B'') sourceState)\<rparr>"

text \<open>A rule with an empty folder path, as the settings tab's add button creates it.\<close>

definition emptyRuleSettings :: ViewModeSettings where
  "emptyRuleSettings =
     DEFAULT_SETTINGS\<lparr>folderViewModes := [\<lparr>folderPath = [], viewMode = Read\<rparr>]\<rparr>"

definition mixedRuleSettings :: ViewModeSettings where
  "mixedRuleSettings =
     DEFAULT_SETTINGS\<lparr>folderViewModes :=
       [\<lparr>folderPath = [], viewMode = Lock\<rparr>, \<lparr>folderPath = ''Reference'', viewMode = Read\<rparr>]\<rparr>"

definition previewState :: ViewState where
  "previewState = \<lparr>mode = Some Preview, source = Some False, others = [(''file'', ''B.md'')]\<rparr>"

text \<open>\<open>A.md\<close> was unlocked for the session and is the document the active view shows.\<close>

definition selfUnlockedWorld :: World where
  "selfUnlockedWorld =
     emptyWorld\<lparr>lockedFiles := {''B.md''}, temporarilyUnlockedFiles := {''A.md''},
                activeView := Some (freshView (mdFile ''A.md'' ''A'') sourceState)\<rparr>"

text \<open>The locked \<open>B.md\<close> is active, in source mode and in preview mode.\<close>

definition lockedSourceWorld :: World where
  "lockedSourceWorld =
     emptyWorld\<lparr>lockedFiles := {''B.md''},
                activeView := Some (freshView (mdFile ''B.md'' ''B'') sourceState)\<rparr>"

definition lockedPreviewWorld :: World where
  "lockedPreviewWorld =
     emptyWorld\<lparr>lockedFiles := {''B.md''},
                activeView := Some (freshView (mdFile ''B.md'' ''B'') previewState)\<rparr>"

section \<open>Resolution: lemmas\<close>

lemma lastIndexOf_absent: "c \<notin> set s \<Longrightarrow> lastIndexOf s c = - 1"
  by (induction s) auto

lemma lastIndexOf_present: "c \<in> set s \<Longrightarrow> 0 \<le> lastIndexOf s c"
  by (induction s) auto

lemma lastIndexOf_last: "c \<notin> set n \<Longrightarrow> lastIndexOf (d @ c # n) c = int (length d)"
  by (induction d) (auto simp: lastIndexOf_absent)

lemma substring_from_0: "substring s 0 b = take (nat b) s"
  by (simp add: substring_def clampIndex_def Let_def min_def)

lemma folderOf_split: "CHR ''/'' \<notin> set n \<Longrightarrow> folderOf (d @ ''/'' @ n) = d"
  by (simp add: folderOf_def substring_from_0 lastIndexOf_last)

lemma folderOf_root: "CHR ''/'' \<notin> set p \<Longrightarrow> folderOf p = []"
  by (simp add: folderOf_def substring_from_0 lastIndexOf_absent)

lemma startsWith_prefix: "startsWith s p \<longleftrightarrow> prefix p s"
  unfolding startsWith_def prefix_def
  by (metis append_eq_conv_conj append_take_drop_id)

lemma loop_find:
  "getFolderViewMode_loop fp rs =
     map_option viewMode (find (\<lambda>r. fp = folderPath r \<or> prefix (folderPath r @ ''/'') fp) rs)"
  by (induction rs) (auto simp: startsWith_prefix)

lemma isValid_iff:
  "isValidViewMode s (Some (YString v)) \<longleftrightarrow> v \<in> set (configuredTokens s)"
  by (auto simp: isValidViewMode_def configuredTokens_def yamlName_def)

lemma convert_token:
  "v \<in> set (configuredTokens s) \<Longrightarrow>
     \<exists>m. convertYamlValueToViewMode s v = Some m \<and> yamlName s m = v"
  by (auto simp: convertYamlValueToViewMode_def configuredTokens_def yamlName_def)

lemma frontmatterViewMode_token:
  "frontmatterToken s cache = Some v \<Longrightarrow> v \<in> set (configuredTokens s) \<Longrightarrow>
     frontmatterViewMode s cache = convertYamlValueToViewMode s v"
  by (auto simp: frontmatterToken_def frontmatterViewMode_def isValid_iff
           split: option.splits YamlValue.splits)

lemma frontmatterViewMode_none:
  "frontmatterToken s cache \<notin> Some ` set (configuredTokens s) \<Longrightarrow>
     frontmatterViewMode s cache = None"
  by (auto simp: frontmatterToken_def frontmatterViewMode_def isValidViewMode_def
        configuredTokens_def yamlName_def image_iff
           split: option.splits YamlValue.splits)

lemma frontmatterToken_rules [simp]:
  "frontmatterToken (s\<lparr>folderViewModes := rs\<rparr>) cache = frontmatterToken s cache"
  by (simp add: frontmatterToken_def split: option.splits)

lemma configuredTokens_rules [simp]:
  "configuredTokens (s\<lparr>folderViewModes := rs\<rparr>) = configuredTokens s"
  by (simp add: configuredTokens_def yamlName_def)

lemma convert_rules [simp]:
  "convertYamlValueToViewMode (s\<lparr>folderViewModes := rs\<rparr>) v = convertYamlValueToViewMode s v"
  by (simp add: convertYamlValueToViewMode_def)

text \<open>
  Claim C2. When the frontmatter holds, under the configured property name, a string that
  is one of the five configured tokens, resolution returns a mode whose configured token
  is that string (the one \<^verbatim>\<open>convertYamlValueToViewMode\<close> gives), and it returns the same
  mode whatever the folder rules are.
\<close>

theorem frontmatter_token_wins:
  assumes "frontmatterToken s cache = Some v" and "v \<in> set (configuredTokens s)"
  shows "\<exists>m. yamlName s m = v \<and> convertYamlValueToViewMode s v = Some m \<and>
             resolveViewMode s cache p = Some m \<and>
             resolveViewMode (s\<lparr>folderViewModes := rules\<rparr>) cache p = Some m"
proof -
  from convert_token [OF assms(2)] obtain m
    where m: "convertYamlValueToViewMode s v = Some m" "yamlName s m = v"
    by blast
  have "frontmatterViewMode s cache = Some m"
    using frontmatterViewMode_token [OF assms] m by simp
  moreover have "frontmatterViewMode (s\<lparr>folderViewModes := rules\<rparr>) cache = Some m"
    using frontmatterViewMode_token [of "s\<lparr>folderViewModes := rules\<rparr>" cache v] assms m by simp
  ultimately show ?thesis
    using m by (simp add: resolveViewMode_def)
qed

theorem frontmatter_token_wins_witness:
  "resolveViewMode referenceSettings (cacheWith ''view_mode'' (YString ''locked'')) ''Reference/x.md''
     = Some Lock \<and>
   getFolderViewMode referenceSettings ''Reference/x.md'' = Some Read"
proof -
  have a: "frontmatterToken referenceSettings (cacheWith ''view_mode'' (YString ''locked''))
             = Some ''locked''"
    by (simp add: frontmatterToken_def cacheWith_def referenceSettings_def DEFAULT_SETTINGS_def)
  have b: "''locked'' \<in> set (configuredTokens referenceSettings)"
    by (simp add: configuredTokens_def yamlName_def referenceSettings_def DEFAULT_SETTINGS_def)
  have c: "convertYamlValueToViewMode referenceSettings ''locked'' = Some Lock"
    by (simp add: convertYamlValueToViewMode_def referenceSettings_def DEFAULT_SETTINGS_def)
  have d: "getFolderViewMode referenceSettings ''Reference/x.md'' = Some Read"
    by (simp add: getFolderViewMode_def folderOf_def substring_def clampIndex_def
        startsWith_def referenceSettings_def DEFAULT_SETTINGS_def)
  from frontmatter_token_wins [OF a b, of "''Reference/x.md''"] c d show ?thesis by auto
qed

lemma getFolderViewMode_find:
  "getFolderViewMode s p =
     map_option viewMode
       (find (\<lambda>r. folderOf p = folderPath r \<or> prefix (folderPath r @ ''/'') (folderOf p))
          (folderViewModes s))"
  by (simp add: getFolderViewMode_def loop_find)

lemma frontmatterToken_absent:
  "frontmatter c = Some fm \<Longrightarrow>
     frontmatterToken s (Some (c\<lparr>frontmatter := Some (fm(metaPropertyName s := None))\<rparr>)) = None"
  by (simp add: frontmatterToken_def)

text \<open>
  In the current revision a string that is none of the five configured tokens leaves the
  decision to the folder rules: resolution is what it is with the property removed from
  the frontmatter, the mode of the first folder rule, in list order, that matches the
  folder of the document, and no mode when no rule matches.
\<close>

lemma unknown_token_falls_through:
  assumes "frontmatter c = Some fm"
      and "fm (metaPropertyName s) = Some (YString v)"
      and "v \<notin> set (configuredTokens s)"
  shows "resolveViewMode s (Some c) p =
           resolveViewMode s (Some (c\<lparr>frontmatter := Some (fm(metaPropertyName s := None))\<rparr>)) p
         \<and> resolveViewMode s (Some c) p =
           map_option viewMode
             (find (\<lambda>r. folderOf p = folderPath r \<or> prefix (folderPath r @ ''/'') (folderOf p))
                (folderViewModes s))"
proof -
  have "frontmatterToken s (Some c) = Some v"
    using assms(1,2) by (simp add: frontmatterToken_def)
  then have "frontmatterViewMode s (Some c) = None"
    using assms(3) by (intro frontmatterViewMode_none) auto
  moreover have "frontmatterViewMode s
      (Some (c\<lparr>frontmatter := Some (fm(metaPropertyName s := None))\<rparr>)) = None"
    using frontmatterToken_absent [OF assms(1), of s]
    by (intro frontmatterViewMode_none) simp
  ultimately show ?thesis
    by (simp add: resolveViewMode_def getFolderViewMode_find)
qed

text \<open>
  In the earlier revision a stored string that is not empty is the result of resolution,
  whatever the folder rules are; so is a member the frontmatter object inherits.
\<close>

lemma resolveViewMode_MyPlugin_string:
  assumes "frontmatter c = Some fm" and "fm (metaPropertyName s) = Some (YString v)" and "v \<noteq> []"
  shows "resolveViewMode_MyPlugin s (Some c) p = Some (FromFrontmatter (Stored (YString v)))"
  using assms
  by (simp add: resolveViewMode_MyPlugin_def rawFrontmatterMode_def getProperty_def truthy_def)

lemma resolveViewMode_MyPlugin_inherited:
  "resolveViewMode_MyPlugin (referenceSettings\<lparr>metaPropertyName := ''constructor''\<rparr>)
     (Some \<lparr>frontmatter = Some Map.empty\<rparr>) ''Reference/x.md''
   = Some (FromFrontmatter (PrototypeMember ''constructor''))"
  by (simp add: resolveViewMode_MyPlugin_def rawFrontmatterMode_def getProperty_def truthy_def
      objectPrototypeMembers_def referenceSettings_def DEFAULT_SETTINGS_def)

text \<open>
  Claim C8 fails in the earlier revision. The folder \<open>Reference\<close> has the rule read and the
  frontmatter of \<open>Reference/x.md\<close> holds \<open>view_mode: frozen\<close>, which is no mode name of
  either revision. The resolution block of \<^verbatim>\<open>MyPlugin\<close> keeps \<open>frozen\<close> as the mode and does
  not ask the folder rules; with the property absent it returns the rule's read. The
  current revision returns read on the same document, as the claim says.
\<close>

theorem unknown_token_blocks_folder_rules_MyPlugin:
  "resolveViewMode_MyPlugin referenceSettings (cacheWith ''view_mode'' (YString ''frozen''))
     ''Reference/x.md'' = Some (FromFrontmatter (Stored (YString ''frozen'')))
   \<and> resolveViewMode_MyPlugin referenceSettings (Some \<lparr>frontmatter = Some Map.empty\<rparr>)
       ''Reference/x.md'' = Some (FromFolder Read)
   \<and> resolveViewMode referenceSettings (cacheWith ''view_mode'' (YString ''frozen''))
       ''Reference/x.md'' = Some Read
   \<and> ''frozen'' \<notin> set (configuredTokens referenceSettings)"
proof -
  have folder: "getFolderViewMode referenceSettings ''Reference/x.md'' = Some Read"
    by (simp add: getFolderViewMode_def folderOf_def substring_def clampIndex_def
        referenceSettings_def DEFAULT_SETTINGS_def)
  have meta: "metaPropertyName referenceSettings = ''view_mode''"
    by (simp add: referenceSettings_def DEFAULT_SETTINGS_def)
  have tokens: "''frozen'' \<notin> set (configuredTokens referenceSettings)"
    by (simp add: configuredTokens_def yamlName_def referenceSettings_def DEFAULT_SETTINGS_def)
  have kept: "resolveViewMode_MyPlugin referenceSettings
      (cacheWith ''view_mode'' (YString ''frozen'')) ''Reference/x.md''
      = Some (FromFrontmatter (Stored (YString ''frozen'')))"
    by (simp add: resolveViewMode_MyPlugin_def rawFrontmatterMode_def getProperty_def truthy_def
        cacheWith_def meta)
  have absent: "resolveViewMode_MyPlugin referenceSettings (Some \<lparr>frontmatter = Some Map.empty\<rparr>)
      ''Reference/x.md'' = Some (FromFolder Read)"
    by (simp add: resolveViewMode_MyPlugin_def rawFrontmatterMode_def getProperty_def
        objectPrototypeMembers_def meta folder)
  have "frontmatterViewMode referenceSettings (cacheWith ''view_mode'' (YString ''frozen'')) = None"
    using tokens
    by (intro frontmatterViewMode_none) (auto simp: frontmatterToken_def cacheWith_def meta)
  then have current: "resolveViewMode referenceSettings
      (cacheWith ''view_mode'' (YString ''frozen'')) ''Reference/x.md'' = Some Read"
    by (simp add: resolveViewMode_def folder)
  from kept absent current tokens show ?thesis by simp
qed

text \<open>
  Claim C3. When the frontmatter holds none of the configured tokens, resolution returns
  the mode of the first rule, in list order, whose \<open>folderPath\<close> is the folder of the
  document or, followed by a slash, a prefix of it, and nothing when there is none. The
  folder of \<open>d/n\<close> is \<open>d\<close> when \<open>n\<close> has no slash, and empty for a path without a
  slash. A rule for \<open>Similar\<close> matches no document whose folder is \<open>SimilarName\<close> or
  begins with it.
\<close>

theorem folder_rules_first_match:
  assumes "frontmatterToken s cache \<notin> Some ` set (configuredTokens s)"
  shows "resolveViewMode s cache p =
           map_option viewMode
             (find (\<lambda>r. folderOf p = folderPath r \<or> prefix (folderPath r @ ''/'') (folderOf p))
                (folderViewModes s))
         \<and> (\<forall>d n. CHR ''/'' \<notin> set n \<longrightarrow> folderOf (d @ ''/'' @ n) = d)
         \<and> (CHR ''/'' \<notin> set p \<longrightarrow> folderOf p = [])
         \<and> (\<forall>q m. prefix ''SimilarName'' (folderOf q) \<longrightarrow>
               resolveViewMode
                 (s\<lparr>folderViewModes := [\<lparr>folderPath = ''Similar'', viewMode = m\<rparr>]\<rparr>) cache
                 q = None)"
proof -
  have fm: "frontmatterViewMode s cache = None"
    using assms by (rule frontmatterViewMode_none)
  have similar: "resolveViewMode
      (s\<lparr>folderViewModes := [\<lparr>folderPath = ''Similar'', viewMode = m\<rparr>]\<rparr>) cache q = None"
    if "prefix ''SimilarName'' (folderOf q)" for q m
  proof -
    have "frontmatterViewMode (s\<lparr>folderViewModes := [\<lparr>folderPath = ''Similar'', viewMode = m\<rparr>]\<rparr>)
        cache = None"
      using assms by (intro frontmatterViewMode_none) simp
    moreover from that obtain r where "folderOf q = ''SimilarName'' @ r"
      by (auto simp: prefix_def)
    ultimately show ?thesis
      by (simp add: resolveViewMode_def getFolderViewMode_def startsWith_def)
  qed
  show ?thesis
    using fm similar folderOf_split folderOf_root
    by (simp add: resolveViewMode_def getFolderViewMode_find)
qed

theorem folder_rules_first_match_witness:
  "resolveViewMode threeRuleSettings None ''Reference/Sub/doc.md'' = Some Edit \<and>
   resolveViewMode threeRuleSettings None ''Reference/doc.md'' = Some Read \<and>
   folderOf ''Reference/Sub/doc.md'' = ''Reference/Sub'' \<and>
   folderOf ''doc.md'' = [] \<and>
   resolveViewMode
     (threeRuleSettings\<lparr>folderViewModes := [\<lparr>folderPath = ''Similar'', viewMode = Lock\<rparr>]\<rparr>) None
     ''SimilarName/doc.md'' = None"
proof -
  have a: "frontmatterToken threeRuleSettings None \<notin> Some ` set (configuredTokens threeRuleSettings)"
    by (simp add: frontmatterToken_def)
  have n: "CHR ''/'' \<notin> set ''doc.md''" by simp
  have f1: "folderOf ''Reference/Sub/doc.md'' = ''Reference/Sub''"
    using folder_rules_first_match [OF a, of "''doc.md''"] n
      folderOf_split [of "''doc.md''" "''Reference/Sub''"] by simp
  have f2: "folderOf ''Reference/doc.md'' = ''Reference''"
    using folderOf_split [of "''doc.md''" "''Reference''"] by simp
  have r1: "resolveViewMode threeRuleSettings None ''Reference/Sub/doc.md'' = Some Edit"
    using folder_rules_first_match [OF a, of "''Reference/Sub/doc.md''"] f1
    by (simp add: threeRuleSettings_def)
  have r2: "resolveViewMode threeRuleSettings None ''Reference/doc.md'' = Some Read"
    using folder_rules_first_match [OF a, of "''Reference/doc.md''"] f2
    by (simp add: threeRuleSettings_def)
  have r3: "folderOf ''doc.md'' = []"
    using folder_rules_first_match [OF a, of "''doc.md''"] by simp
  have r4: "resolveViewMode
     (threeRuleSettings\<lparr>folderViewModes := [\<lparr>folderPath = ''Similar'', viewMode = Lock\<rparr>]\<rparr>) None
     ''SimilarName/doc.md'' = None"
    using folder_rules_first_match [OF a, of "''doc.md''", THEN conjunct2, THEN conjunct2,
        THEN conjunct2, rule_format, of "''SimilarName/doc.md''" Lock]
      folderOf_split [of "''doc.md''" "''SimilarName''"] n
    by simp
  from r1 r2 f1 r3 r4 show ?thesis by simp
qed

lemma folderOf_nested:
  assumes "CHR ''/'' \<in> set p" and "hd p \<noteq> CHR ''/''"
  shows "folderOf p \<noteq> [] \<and> hd (folderOf p) \<noteq> CHR ''/''"
proof (cases p)
  case Nil
  with assms show ?thesis by simp
next
  case (Cons x xs)
  with assms have "x \<noteq> CHR ''/''" and "CHR ''/'' \<in> set xs" by auto
  then have "0 \<le> lastIndexOf xs CHR ''/''" by (simp add: lastIndexOf_present)
  then have "folderOf p = x # take (nat (lastIndexOf xs CHR ''/'')) xs"
    using Cons by (simp add: folderOf_def substring_from_0 nat_add_distrib take_Cons')
  with \<open>x \<noteq> CHR ''/''\<close> show ?thesis by simp
qed

lemma loop_skips_empty_rules:
  assumes "fp \<noteq> []" and "hd fp \<noteq> CHR ''/''"
  shows "getFolderViewMode_loop fp (filter (\<lambda>r. folderPath r \<noteq> []) rs) =
         getFolderViewMode_loop fp rs"
  using assms by (induction rs) (auto simp: startsWith_def take_Suc)

lemma loop_root:
  "getFolderViewMode_loop [] rs = map_option viewMode (find (\<lambda>r. folderPath r = []) rs)"
  by (induction rs) (auto simp: startsWith_def)

lemma frontmatterViewMode_rules:
  "frontmatterViewMode (s\<lparr>folderViewModes := rs\<rparr>) cache = frontmatterViewMode s cache"
  by (simp add: frontmatterViewMode_def isValidViewMode_def convertYamlValueToViewMode_def
      split: option.splits YamlValue.splits)

text \<open>
  Claim C9 as stated fails: with the single rule of an empty \<open>folderPath\<close> and mode
  read, the root document \<open>note.md\<close> resolves to read; without the rule it resolves to
  nothing.
\<close>

theorem empty_folder_rule_matches_root:
  "resolveViewMode emptyRuleSettings None ''note.md'' = Some Read \<and>
   resolveViewMode (emptyRuleSettings\<lparr>folderViewModes := []\<rparr>) None ''note.md'' = None"
  by (simp add: resolveViewMode_def frontmatterViewMode_def getFolderViewMode_def folderOf_def
      substring_def clampIndex_def emptyRuleSettings_def DEFAULT_SETTINGS_def)

text \<open>
  Claim C9, as amended. A rule whose \<open>folderPath\<close> is empty never matches a document
  that lies inside a folder (its path has a slash and does not begin with one): for such
  a document resolution is what it is with the empty rules removed. For a document at the
  vault root it does match: the folder rules return the mode of the first rule with an
  empty \<open>folderPath\<close>.
\<close>

theorem empty_folder_rule_inside_folders:
  assumes "CHR ''/'' \<in> set p" and "hd p \<noteq> CHR ''/''"
  shows "resolveViewMode s cache p =
           resolveViewMode
             (s\<lparr>folderViewModes := filter (\<lambda>r. folderPath r \<noteq> []) (folderViewModes s)\<rparr>) cache p
         \<and> (\<forall>q. CHR ''/'' \<notin> set q \<longrightarrow>
               getFolderViewMode s q =
                 map_option viewMode (find (\<lambda>r. folderPath r = []) (folderViewModes s)))"
proof -
  from folderOf_nested [OF assms]
  have "getFolderViewMode s p =
        getFolderViewMode
          (s\<lparr>folderViewModes := filter (\<lambda>r. folderPath r \<noteq> []) (folderViewModes s)\<rparr>) p"
    by (simp add: getFolderViewMode_def loop_skips_empty_rules)
  then show ?thesis
    by (simp add: resolveViewMode_def frontmatterViewMode_rules getFolderViewMode_def
        folderOf_root loop_root split: option.splits)
qed

theorem empty_folder_rule_inside_folders_witness:
  "resolveViewMode mixedRuleSettings None ''Reference/x.md'' = Some Read \<and>
   getFolderViewMode mixedRuleSettings ''note.md'' = Some Lock"
proof -
  have a: "CHR ''/'' \<in> set ''Reference/x.md''" by simp
  have b: "hd ''Reference/x.md'' \<noteq> CHR ''/''" by simp
  have c: "CHR ''/'' \<notin> set ''note.md''" by simp
  have d: "resolveViewMode
      (mixedRuleSettings\<lparr>folderViewModes :=
         filter (\<lambda>r. folderPath r \<noteq> []) (folderViewModes mixedRuleSettings)\<rparr>) None
      ''Reference/x.md'' = Some Read"
    by (simp add: resolveViewMode_def frontmatterViewMode_def getFolderViewMode_def folderOf_def
      substring_def clampIndex_def mixedRuleSettings_def DEFAULT_SETTINGS_def)
  from empty_folder_rule_inside_folders [OF a b, of mixedRuleSettings None] c d show ?thesis
    by (simp add: mixedRuleSettings_def DEFAULT_SETTINGS_def)
qed

section \<open>The registry and the handlers\<close>

lemma updateEditButtonsVisibility_frame:
  "updateEditButtonsVisibility w =
     w\<lparr>editButtonsHidden := editButtonsHidden (updateEditButtonsVisibility w)\<rparr>"
  by (simp add: updateEditButtonsVisibility_def split: option.splits)

lemma updateEditButtonsVisibility_idem:
  "updateEditButtonsVisibility (updateEditButtonsVisibility w) = updateEditButtonsVisibility w"
  by (simp add: updateEditButtonsVisibility_def isFileLocked_def split: option.splits)

lemma updateEditButtonsVisibility_sets:
  "lockedFiles (updateEditButtonsVisibility w) = lockedFiles w"
  "temporarilyUnlockedFiles (updateEditButtonsVisibility w) = temporarilyUnlockedFiles w"
  by (simp_all add: updateEditButtonsVisibility_def split: option.splits)

lemma callSetState_world:
  "fst (callSetState k w v st res) = w\<lparr>notices := notices (fst (callSetState k w v st res))\<rparr>"
proof (induction k arbitrary: w st)
  case HostSetState
  show ?case by simp
next
  case (GuardedSetState k)
  show ?case
  proof (cases "guardApplies w v \<and> asksToLeavePreview st")
    case True
    then show ?thesis
      using GuardedSetState [of "notify (lockedNotice (viewFile v)) w" "st\<lparr>mode := Some Preview\<rparr>"]
      by (simp add: notify_def)
  next
    case False
    then show ?thesis using GuardedSetState [of w st] by auto
  qed
qed

lemma callSetState_sets:
  "lockedFiles (fst (callSetState k w v st res)) = lockedFiles w"
  "temporarilyUnlockedFiles (fst (callSetState k w v st res)) = temporarilyUnlockedFiles w"
  "activeView (fst (callSetState k w v st res)) = activeView w"
  "editButtonsHidden (fst (callSetState k w v st res)) = editButtonsHidden w"
  by (subst callSetState_world, simp)+

lemma unlockFile_sets:
  "lockedFiles (unlockFile f w) = lockedFiles w - {f}"
  "temporarilyUnlockedFiles (unlockFile f w) = insert f (temporarilyUnlockedFiles w)"
  by (simp_all add: unlockFile_def Let_def split_beta updateEditButtonsVisibility_sets
        callSetState_sets split: option.splits)

lemma unlockFile_tick: "updateEditButtonsVisibility (unlockFile f w) = unlockFile f w"
  by (simp add: unlockFile_def Let_def updateEditButtonsVisibility_idem)

lemma registryCalls_snoc:
  "registryCalls (cs @ [c]) w = registryCall c (registryCalls cs w)"
  by (simp add: registryCalls_def)

text \<open>
  Claim C5. After the active-leaf-change handler the set of temporarily unlocked
  documents is empty, whatever it held; the clearing step \<^verbatim>\<open>handleLeafChange\<close> empties
  it and changes nothing else but the visibility of the edit buttons.
\<close>

theorem leaf_change_clears_unlocks:
  "temporarilyUnlockedFiles (onActiveLeafChange w) = {}
   \<and> temporarilyUnlockedFiles (handleLeafChange w) = {}
   \<and> handleLeafChange w =
       w\<lparr>temporarilyUnlockedFiles := {},
         editButtonsHidden := editButtonsHidden (handleLeafChange w)\<rparr>"
proof -
  have a: "temporarilyUnlockedFiles (handleLeafChange u) = {}" for u
    by (simp add: handleLeafChange_def updateEditButtonsVisibility_sets)
  have b: "handleLeafChange w =
       w\<lparr>temporarilyUnlockedFiles := {},
         editButtonsHidden := editButtonsHidden (handleLeafChange w)\<rparr>"
  proof -
    have "(if temporarilyUnlockedFiles w \<noteq> {} then w\<lparr>temporarilyUnlockedFiles := {}\<rparr> else w)
            = w\<lparr>temporarilyUnlockedFiles := {}\<rparr>"
      by (cases w) auto
    then have "handleLeafChange w =
        updateEditButtonsVisibility (w\<lparr>temporarilyUnlockedFiles := {}\<rparr>)"
      by (simp only: handleLeafChange_def)
    then show ?thesis
      using updateEditButtonsVisibility_frame [of "w\<lparr>temporarilyUnlockedFiles := {}\<rparr>"]
      by simp
  qed
  from a b show ?thesis by (simp add: onActiveLeafChange_def)
qed

theorem leaf_change_clears_unlocks_witness:
  "temporarilyUnlockedFiles (onActiveLeafChange otherUnlockedWorld) = {}
   \<and> lockedFiles (handleLeafChange otherUnlockedWorld) = {''B.md''}"
proof -
  have "lockedFiles (handleLeafChange otherUnlockedWorld) = lockedFiles otherUnlockedWorld"
    by (subst leaf_change_clears_unlocks [THEN conjunct2, THEN conjunct2]) simp
  then show ?thesis
    using leaf_change_clears_unlocks [of otherUnlockedWorld]
    by (simp add: otherUnlockedWorld_def emptyWorld_def)
qed

lemma forcePreview_sets:
  "lockedFiles (fst (forcePreview w v)) = lockedFiles w"
  "temporarilyUnlockedFiles (fst (forcePreview w v)) = temporarilyUnlockedFiles w"
  by (simp_all add: forcePreview_def split_beta notify_def callSetState_sets)

lemma checkAndEnforce_temp:
  "temporarilyUnlockedFiles (checkAndEnforceLockedFiles w) = temporarilyUnlockedFiles w"
  by (simp add: checkAndEnforceLockedFiles_def split_beta updateEditButtonsVisibility_sets
      forcePreview_sets addLocked_def split: option.splits)

lemma checkAndEnforce_skip:
  "activeView w = Some v \<Longrightarrow> viewFile v = Some f \<Longrightarrow> path f \<in> temporarilyUnlockedFiles w \<Longrightarrow>
     checkAndEnforceLockedFiles w = w"
  by (simp add: checkAndEnforceLockedFiles_def)

text \<open>
  Claim C10. For every path and every state, \<^verbatim>\<open>unlockFile\<close> removes the path from the
  locked set and adds it to the temporarily unlocked set, which is then not empty. While
  that set is not empty the timer callback only refreshes the buttons, and the timer,
  layout-change and resize handlers leave the set as it is; the active-leaf-change
  handler empties it. Two calls in a row leave both sets as one call does.
\<close>

theorem unlockFile_unconditional:
  "lockedFiles (unlockFile f w) = lockedFiles w - {f}
   \<and> temporarilyUnlockedFiles (unlockFile f w) = insert f (temporarilyUnlockedFiles w)
   \<and> temporarilyUnlockedFiles (unlockFile f w) \<noteq> {}
   \<and> onInterval (unlockFile f w) = unlockFile f w
   \<and> (\<forall>u. temporarilyUnlockedFiles u \<noteq> {} \<longrightarrow>
          onInterval u = updateEditButtonsVisibility u
          \<and> temporarilyUnlockedFiles (onInterval u) = temporarilyUnlockedFiles u
          \<and> temporarilyUnlockedFiles (onLayoutChange u) = temporarilyUnlockedFiles u
          \<and> temporarilyUnlockedFiles (onResize u) = temporarilyUnlockedFiles u)
   \<and> temporarilyUnlockedFiles (onActiveLeafChange (unlockFile f w)) = {}
   \<and> lockedFiles (unlockFile f (unlockFile f w)) = lockedFiles (unlockFile f w)
   \<and> temporarilyUnlockedFiles (unlockFile f (unlockFile f w)) =
       temporarilyUnlockedFiles (unlockFile f w)"
proof -
  have nonempty: "temporarilyUnlockedFiles (unlockFile f w) \<noteq> {}"
    by (simp add: unlockFile_sets)
  have tick: "onInterval u = updateEditButtonsVisibility u"
    if "temporarilyUnlockedFiles u \<noteq> {}" for u
    using that by (simp add: onInterval_def)
  have leaf: "temporarilyUnlockedFiles (onActiveLeafChange u) = {}" for u
    by (simp add: onActiveLeafChange_def handleLeafChange_def updateEditButtonsVisibility_sets)
  show ?thesis
    using nonempty tick [OF nonempty] leaf
    by (auto simp: unlockFile_sets unlockFile_tick tick onLayoutChange_def onResize_def
        checkAndEnforce_temp updateEditButtonsVisibility_sets)
qed

theorem unlockFile_unconditional_witness:
  "lockedFiles (unlockFile ''A.md'' lockedSourceWorld) = {''B.md''}
   \<and> temporarilyUnlockedFiles (unlockFile ''A.md'' lockedSourceWorld) = {''A.md''}
   \<and> onInterval (unlockFile ''A.md'' lockedSourceWorld) = unlockFile ''A.md'' lockedSourceWorld
   \<and> notices (onInterval lockedSourceWorld) = [lockedNotice (Some (mdFile ''B.md'' ''B''))]"
proof -
  have "notices (onInterval lockedSourceWorld) = [lockedNotice (Some (mdFile ''B.md'' ''B''))]"
    by (simp add: onInterval_def checkAndEnforceLockedFiles_def lockedSourceWorld_def
        emptyWorld_def freshView_def mdFile_def forcePreview_def sourceState_def notify_def
        resolveViewMode_def frontmatterViewMode_def noCache_def getFolderViewMode_def
        DEFAULT_SETTINGS_def updateEditButtonsVisibility_def)
  then show ?thesis
    using unlockFile_unconditional [of "''A.md''" lockedSourceWorld]
    by (simp add: lockedSourceWorld_def emptyWorld_def)
qed

text \<open>
  Claim C1 as stated fails: \<open>A.md\<close> is temporarily unlocked, the active view shows the
  locked \<open>B.md\<close> in source mode. The layout-change, resize and active-leaf-change
  handlers force \<open>B.md\<close> back to preview and show the notice; only the timer callback
  does nothing.
\<close>

theorem layout_change_enforces_despite_unlock:
  "temporarilyUnlockedFiles otherUnlockedWorld \<noteq> {}
   \<and> notices (onLayoutChange otherUnlockedWorld) = [lockedNotice (Some (mdFile ''B.md'' ''B''))]
   \<and> map_option hostCalls (activeView (onLayoutChange otherUnlockedWorld)) =
       Some [(sourceState\<lparr>mode := Some Preview\<rparr>, \<lparr>history = False\<rparr>)]
   \<and> onResize otherUnlockedWorld = onLayoutChange otherUnlockedWorld
   \<and> notices (onActiveLeafChange otherUnlockedWorld) = [lockedNotice (Some (mdFile ''B.md'' ''B''))]
   \<and> notices (onInterval otherUnlockedWorld) = []"
  by (simp add: onLayoutChange_def onResize_def onActiveLeafChange_def onInterval_def
        handleLeafChange_def
        checkAndEnforceLockedFiles_def otherUnlockedWorld_def
        emptyWorld_def freshView_def mdFile_def forcePreview_def sourceState_def notify_def
        resolveViewMode_def frontmatterViewMode_def noCache_def getFolderViewMode_def
        DEFAULT_SETTINGS_def updateEditButtonsVisibility_def isFileLocked_def)

text \<open>
  Claim C1, as amended. While the set of temporarily unlocked documents is not empty,
  the timer callback does not run \<^verbatim>\<open>checkAndEnforceLockedFiles\<close> (it only refreshes the
  buttons); while it is empty the callback runs it. The layout-change, active-leaf-change
  and resize handlers run it whatever the set holds, and there it returns at once, with
  no effect, when the active document itself is temporarily unlocked.
\<close>

theorem timer_skips_events_run:
  "(temporarilyUnlockedFiles w \<noteq> {} \<longrightarrow> onInterval w = updateEditButtonsVisibility w)
   \<and> (temporarilyUnlockedFiles w = {} \<longrightarrow>
        onInterval w = updateEditButtonsVisibility (checkAndEnforceLockedFiles w))
   \<and> onLayoutChange w = checkAndEnforceLockedFiles w
   \<and> onResize w = checkAndEnforceLockedFiles w
   \<and> onActiveLeafChange w = handleLeafChange (checkAndEnforceLockedFiles w)
   \<and> (\<forall>v f. activeView w = Some v \<and> viewFile v = Some f \<and> path f \<in> temporarilyUnlockedFiles w
        \<longrightarrow> checkAndEnforceLockedFiles w = w)"
  by (simp add: onInterval_def onLayoutChange_def onResize_def onActiveLeafChange_def
      checkAndEnforce_skip)

theorem timer_skips_events_run_witness:
  "onInterval selfUnlockedWorld = selfUnlockedWorld
   \<and> onLayoutChange selfUnlockedWorld = selfUnlockedWorld
   \<and> onResize selfUnlockedWorld = selfUnlockedWorld
   \<and> temporarilyUnlockedFiles (onActiveLeafChange selfUnlockedWorld) = {}"
proof -
  have a: "temporarilyUnlockedFiles selfUnlockedWorld \<noteq> {}"
    by (simp add: selfUnlockedWorld_def)
  have b: "activeView selfUnlockedWorld = Some (freshView (mdFile ''A.md'' ''A'') sourceState)
      \<and> viewFile (freshView (mdFile ''A.md'' ''A'') sourceState) = Some (mdFile ''A.md'' ''A'')
      \<and> path (mdFile ''A.md'' ''A'') \<in> temporarilyUnlockedFiles selfUnlockedWorld"
    by (simp add: selfUnlockedWorld_def freshView_def mdFile_def)
  have c: "updateEditButtonsVisibility selfUnlockedWorld = selfUnlockedWorld"
    by (simp add: updateEditButtonsVisibility_def selfUnlockedWorld_def emptyWorld_def
        freshView_def mdFile_def isFileLocked_def)
  have d: "temporarilyUnlockedFiles (handleLeafChange selfUnlockedWorld) = {}"
    by (simp add: handleLeafChange_def updateEditButtonsVisibility_sets)
  from timer_skips_events_run [of selfUnlockedWorld] a b c d show ?thesis by auto
qed

section \<open>The wrapper and the mode writes\<close>

lemma guardApplies_notify [simp]: "guardApplies (notify m w) v = guardApplies w v"
  by (simp add: guardApplies_def notify_def split: option.splits)

lemma asksToLeavePreview_preview [simp]: "\<not> asksToLeavePreview (st\<lparr>mode := Some Preview\<rparr>)"
  by (simp add: asksToLeavePreview_def)

lemma asksToLeavePreview_iff:
  "asksToLeavePreview st \<longleftrightarrow> mode st \<noteq> None \<and> mode st \<noteq> Some Preview"
  by (auto simp: asksToLeavePreview_def split: option.splits)

lemma callSetState_pass:
  "\<not> (guardApplies w v \<and> asksToLeavePreview st) \<Longrightarrow>
     callSetState k w v st res = (w, v\<lparr>state := st, hostCalls := hostCalls v @ [(st, res)]\<rparr>)"
  by (induction k) auto

lemma callSetState_guarded:
  "guardApplies w v \<Longrightarrow> asksToLeavePreview st \<Longrightarrow>
     callSetState (GuardedSetState k) w v st res =
       (notify (lockedNotice (viewFile v)) w,
        v\<lparr>state := st\<lparr>mode := Some Preview\<rparr>,
          hostCalls := hostCalls v @ [(st\<lparr>mode := Some Preview\<rparr>, res)]\<rparr>)"
  by (simp add: callSetState_pass)

lemma callSetState_logs:
  "hostCalls (snd (callSetState k w v st res)) =
     hostCalls v @ [(state (snd (callSetState k w v st res)), res)]"
proof (induction k arbitrary: w st)
  case HostSetState
  show ?case by simp
next
  case (GuardedSetState k)
  show ?case
    using GuardedSetState [of w st]
      GuardedSetState [of "notify (lockedNotice (viewFile v)) w" "st\<lparr>mode := Some Preview\<rparr>"]
    by simp
qed

lemma patch_fields [simp]:
  "viewFile (patchViewStateMethod v) = viewFile v"
  "state (patchViewStateMethod v) = state v"
  "hostCalls (patchViewStateMethod v) = hostCalls v"
  by (simp_all add: patchViewStateMethod_def)

lemma guardApplies_patch [simp]: "guardApplies w (patchViewStateMethod v) = guardApplies w v"
  by (simp add: guardApplies_def)

lemma patch_idem: "patchViewStateMethod (patchViewStateMethod v) = patchViewStateMethod v"
  by (simp add: patchViewStateMethod_def)

lemma guardApplies_iff:
  "viewFile v = Some f \<Longrightarrow> path f \<noteq> [] \<Longrightarrow> guardApplies w v = isEnforcedLocked w (path f)"
  by (simp add: guardApplies_def isEnforcedLocked_def)

lemma modeEffect_sets:
  "lockedFiles (fst (modeEffect vm w v st)) =
     (if vm = Lock then insert (lockKey v) (lockedFiles w) else lockedFiles w)"
  "temporarilyUnlockedFiles (fst (modeEffect vm w v st)) = temporarilyUnlockedFiles w"
  by (cases vm; simp add: notifyIfEnabled_def notify_def addLocked_def)+

lemma modeEffect_state: "snd (modeEffect vm w v st) = modeTable (livePreviewConfig w) vm st"
  by (cases vm) (simp_all add: modeTable_def)

lemma modeEffect_guard:
  "vm \<noteq> Lock \<Longrightarrow> guardApplies (fst (modeEffect vm w v st)) u = guardApplies w u"
  by (cases vm) (simp_all add: notifyIfEnabled_def)

lemma modeTable_asks:
  "asksToLeavePreview (modeTable lp vm st) \<longleftrightarrow> vm \<noteq> Read \<and> vm \<noteq> Lock"
  by (cases vm) (simp_all add: modeTable_def asksToLeavePreview_def)

lemma lockKey_patch [simp]: "lockKey (patchViewStateMethod v) = lockKey v"
  by (simp add: lockKey_def)

lemma setViewMode_unfold:
  "setViewMode w view vm =
     callSetState (setState (patchViewStateMethod view))
       (fst (modeEffect vm w (patchViewStateMethod view) (state view)))
       (patchViewStateMethod view)
       (modeTable (livePreviewConfig w) vm (state view)) \<lparr>history = False\<rparr>"
  by (simp add: setViewMode_def Let_def split_beta modeEffect_state)

lemma setViewMode_sets:
  "lockedFiles (fst (setViewMode w view vm)) =
     (if vm = Lock then insert (lockKey view) (lockedFiles w) else lockedFiles w)"
  "temporarilyUnlockedFiles (fst (setViewMode w view vm)) = temporarilyUnlockedFiles w"
  by (simp_all add: setViewMode_unfold callSetState_sets modeEffect_sets)

lemma modeEffect_patch:
  "fst (modeEffect vm w (patchViewStateMethod v) st) = fst (modeEffect vm w v st)"
  by (cases vm) simp_all

lemma patch_guarded:
  "originalSetState v = None \<or> (\<exists>k. setState v = GuardedSetState k) \<Longrightarrow>
     \<exists>k. setState (patchViewStateMethod v) = GuardedSetState k"
  by (auto simp: patchViewStateMethod_def)

text \<open>
  Claim C4 as stated fails: after \<^verbatim>\<open>unlockFile\<close> and then \<^verbatim>\<open>lockedFiles.add\<close> of the same
  document it is in both sets, \<^verbatim>\<open>isFileLocked\<close> is true, and
  \<open>locked.has(id) && !temporarilyUnlocked.has(id)\<close> is false. The lock case of
  \<^verbatim>\<open>setViewMode\<close> is such an add: it does not look at the unlocked set.
\<close>

theorem isFileLocked_ignores_temporary_unlock:
  "isFileLocked (registryCalls [MarkTemporarilyUnlocked ''B.md'', MarkLocked ''B.md''] emptyWorld)
     ''B.md''
   \<and> \<not> isEnforcedLocked
         (registryCalls [MarkTemporarilyUnlocked ''B.md'', MarkLocked ''B.md''] emptyWorld) ''B.md''
   \<and> isFileLocked
       (fst (setViewMode (unlockFile ''B.md'' lockedPreviewWorld)
               (freshView (mdFile ''B.md'' ''B'') previewState) Lock)) ''B.md''
   \<and> \<not> isEnforcedLocked
       (fst (setViewMode (unlockFile ''B.md'' lockedPreviewWorld)
               (freshView (mdFile ''B.md'' ''B'') previewState) Lock)) ''B.md''"
  by (simp add: registryCalls_def isFileLocked_def isEnforcedLocked_def addLocked_def
      unlockFile_sets setViewMode_sets lockKey_def freshView_def mdFile_def)

text \<open>
  Claim C4, as amended. \<^verbatim>\<open>isFileLocked(id)\<close> returns exactly \<^verbatim>\<open>lockedFiles.has(id)\<close>. After
  any sequence of registry calls it is true right after \<open>markLocked id\<close> and false right
  after \<^verbatim>\<open>unlockFile(id)\<close>, which also leaves \<open>id\<close> not enforced-locked. It agrees with
  \<open>locked.has(id) && !temporarilyUnlocked.has(id)\<close> in every state where \<open>id\<close> is not in
  both sets.
\<close>

theorem isFileLocked_reads_locked_set:
  "isFileLocked w f = (f \<in> lockedFiles w)
   \<and> isFileLocked (registryCalls (cs @ [MarkLocked f]) w) f
   \<and> \<not> isFileLocked (registryCalls (cs @ [MarkTemporarilyUnlocked f]) w) f
   \<and> \<not> isEnforcedLocked (registryCalls (cs @ [MarkTemporarilyUnlocked f]) w) f
   \<and> (f \<in> lockedFiles w \<inter> temporarilyUnlockedFiles w \<or>
        isFileLocked w f = isEnforcedLocked w f)"
  by (auto simp: registryCalls_snoc isFileLocked_def isEnforcedLocked_def addLocked_def
      unlockFile_sets)

theorem isFileLocked_reads_locked_set_witness:
  "isFileLocked (registryCalls [MarkTemporarilyUnlocked ''D.md'', MarkLocked ''D.md''] emptyWorld)
     ''D.md''
   \<and> \<not> isFileLocked
       (registryCalls [MarkLocked ''D.md'', MarkTemporarilyUnlocked ''D.md''] emptyWorld) ''D.md''"
  using
    isFileLocked_reads_locked_set [of emptyWorld "''D.md''" "[MarkTemporarilyUnlocked ''D.md'']"]
    isFileLocked_reads_locked_set [of emptyWorld "''D.md''" "[MarkLocked ''D.md'']"]
  by simp

text \<open>
  Claim C6, as amended. \<^verbatim>\<open>setViewMode\<close> makes exactly one call of the host's setter, with
  \<^verbatim>\<open>{ history: false }\<close>; the lock mode adds the document to the locked set. For the
  modes read and lock, and for every mode on a document the wrapper's test does not hold
  for (not locked, or temporarily unlocked), the state written is the mode table's. For
  an edit mode on a document that is locked and not temporarily unlocked, the wrapper
  (installed by this call, or by an earlier one) turns the written \<open>mode\<close> into preview
  and shows the locked notice.
\<close>

theorem setViewMode_writes:
  "hostCalls (snd (setViewMode w view vm)) =
     hostCalls view @ [(state (snd (setViewMode w view vm)), \<lparr>history = False\<rparr>)]
   \<and> lockedFiles (fst (setViewMode w view vm)) =
       (if vm = Lock then insert (lockKey view) (lockedFiles w) else lockedFiles w)
   \<and> temporarilyUnlockedFiles (fst (setViewMode w view vm)) = temporarilyUnlockedFiles w
   \<and> (vm = Read \<or> vm = Lock \<or> \<not> guardApplies w view \<longrightarrow>
        state (snd (setViewMode w view vm)) = modeTable (livePreviewConfig w) vm (state view)
        \<and> fst (setViewMode w view vm) = fst (modeEffect vm w view (state view)))
   \<and> (guardApplies w view \<and> vm \<noteq> Read \<and> vm \<noteq> Lock
        \<and> (originalSetState view = None \<or> (\<exists>k. setState view = GuardedSetState k)) \<longrightarrow>
        state (snd (setViewMode w view vm)) =
          (modeTable (livePreviewConfig w) vm (state view))\<lparr>mode := Some Preview\<rparr>
        \<and> fst (setViewMode w view vm) =
            notify (lockedNotice (viewFile view)) (fst (modeEffect vm w view (state view))))"
proof -
  let ?pv = "patchViewStateMethod view"
  let ?w1 = "fst (modeEffect vm w view (state view))"
  let ?t = "modeTable (livePreviewConfig w) vm (state view)"
  have unfold: "setViewMode w view vm = callSetState (setState ?pv) ?w1 ?pv ?t \<lparr>history = False\<rparr>"
    by (simp add: setViewMode_unfold modeEffect_patch)
  have logs: "hostCalls (snd (setViewMode w view vm)) =
     hostCalls view @ [(state (snd (setViewMode w view vm)), \<lparr>history = False\<rparr>)]"
    using callSetState_logs [of "setState ?pv" ?w1 ?pv ?t "\<lparr>history = False\<rparr>"]
    by (simp add: unfold)
  have plain: "state (snd (setViewMode w view vm)) = ?t \<and> fst (setViewMode w view vm) = ?w1"
    if "vm = Read \<or> vm = Lock \<or> \<not> guardApplies w view"
  proof -
    have "\<not> (guardApplies ?w1 ?pv \<and> asksToLeavePreview ?t)"
      using that modeEffect_guard [of vm w view "state view" ?pv]
      by (auto simp: modeTable_asks)
    then show ?thesis
      by (simp add: unfold callSetState_pass)
  qed
  have blocked: "state (snd (setViewMode w view vm)) = ?t\<lparr>mode := Some Preview\<rparr>
        \<and> fst (setViewMode w view vm) = notify (lockedNotice (viewFile view)) ?w1"
    if "guardApplies w view" "vm \<noteq> Read" "vm \<noteq> Lock"
       "originalSetState view = None \<or> (\<exists>k. setState view = GuardedSetState k)"
  proof -
    have g: "guardApplies ?w1 ?pv" "asksToLeavePreview ?t"
      using that modeEffect_guard [of vm w view "state view" ?pv]
      by (auto simp: modeTable_asks)
    from patch_guarded [OF that(4)] obtain k where "setState ?pv = GuardedSetState k" ..
    then show ?thesis
      using callSetState_guarded [OF g, of k "\<lparr>history = False\<rparr>"]
      by (simp add: unfold)
  qed
  from logs setViewMode_sets [of w view vm] plain blocked show ?thesis by blast
qed

text \<open>
  Claim C6 as stated fails: \<open>B.md\<close> is locked; applying the edit mode to its view
  leaves the view in preview (the table asks for source) and shows the locked notice.
\<close>

theorem setViewMode_edit_on_locked:
  "state (snd (setViewMode lockedPreviewWorld (freshView (mdFile ''B.md'' ''B'') previewState) Edit))
     = previewState
   \<and> modeTable True Edit previewState = previewState\<lparr>mode := Some Source\<rparr>
   \<and> notices (fst (setViewMode lockedPreviewWorld
                     (freshView (mdFile ''B.md'' ''B'') previewState) Edit))
     = [lockedNotice (Some (mdFile ''B.md'' ''B''))]"
  by (simp add: setViewMode_def Let_def patchViewStateMethod_def freshView_def
      lockedPreviewWorld_def emptyWorld_def DEFAULT_SETTINGS_def notifyIfEnabled_def
      guardApplies_def mdFile_def asksToLeavePreview_def previewState_def notify_def
      modeTable_def)

theorem setViewMode_writes_witness:
  "state (snd (setViewMode emptyWorld (freshView (mdFile ''B.md'' ''B'') previewState) Edit))
     = previewState\<lparr>mode := Some Source, source := Some False\<rparr>
   \<and> lockedFiles (fst (setViewMode emptyWorld (freshView (mdFile ''B.md'' ''B'') previewState) Lock))
     = {''B.md''}
   \<and> state (snd (setViewMode lockedPreviewWorld
                   (freshView (mdFile ''B.md'' ''B'') previewState) EditSource))
     = previewState\<lparr>source := Some True\<rparr>"
proof -
  let ?v = "freshView (mdFile ''B.md'' ''B'') previewState"
  have a: "\<not> guardApplies emptyWorld ?v"
    by (simp add: guardApplies_def emptyWorld_def freshView_def)
  have b: "guardApplies lockedPreviewWorld ?v" "originalSetState ?v = None"
    by (simp_all add: guardApplies_def lockedPreviewWorld_def emptyWorld_def freshView_def
        mdFile_def)
  have c: "lockKey ?v = ''B.md''" "state ?v = previewState"
    by (simp_all add: lockKey_def freshView_def mdFile_def)
  have e1: "state (snd (setViewMode emptyWorld ?v Edit)) =
      modeTable (livePreviewConfig emptyWorld) Edit (state ?v)"
    using setViewMode_writes [of emptyWorld ?v Edit] a by blast
  have e2: "lockedFiles (fst (setViewMode emptyWorld ?v Lock)) =
      insert (lockKey ?v) (lockedFiles emptyWorld)"
    using setViewMode_writes [of emptyWorld ?v Lock, THEN conjunct2, THEN conjunct1] by simp
  have "EditSource \<noteq> Read \<and> EditSource \<noteq> Lock" by simp
  then have e3: "state (snd (setViewMode lockedPreviewWorld ?v EditSource)) =
      (modeTable (livePreviewConfig lockedPreviewWorld) EditSource (state ?v))
        \<lparr>mode := Some Preview\<rparr>"
    using setViewMode_writes [of lockedPreviewWorld ?v EditSource] b by blast
  show ?thesis
    unfolding e1 e2 e3 c
    by (simp add: modeTable_def emptyWorld_def lockedPreviewWorld_def previewState_def)
qed

text \<open>
  Claim C7. Patching twice is patching once, for every view. On a view that had the
  host's setter, the installed wrapper sits directly on that setter, and a request
  through it reaches the host as follows. If the document (a file with a non-empty path)
  is locked and not temporarily unlocked and the request's \<open>mode\<close> is present and not
  preview, the host gets the request with \<open>mode\<close> set to preview, every other field and
  the result argument as given, and the locked notice is shown. If the view has no file,
  or the document is not enforced-locked, or the \<open>mode\<close> is absent or preview, the host
  gets the request as given and no notice is shown.
\<close>

theorem wrapper_installed_once_and_guards:
  assumes "setState v = HostSetState" and "originalSetState v = None"
  shows "(\<forall>u. patchViewStateMethod (patchViewStateMethod u) = patchViewStateMethod u)
   \<and> setState (patchViewStateMethod v) = GuardedSetState HostSetState
   \<and> (\<forall>f. viewFile v = Some f \<and> path f \<noteq> [] \<and> isEnforcedLocked w (path f)
           \<and> mode st \<noteq> None \<and> mode st \<noteq> Some Preview \<longrightarrow>
         callSetState (setState (patchViewStateMethod v)) w (patchViewStateMethod v) st res =
           (notify (lockedNotice (viewFile v)) w,
            (patchViewStateMethod v)
              \<lparr>state := st\<lparr>mode := Some Preview\<rparr>,
               hostCalls := hostCalls v @ [(st\<lparr>mode := Some Preview\<rparr>, res)]\<rparr>))
   \<and> (viewFile v = None \<or> (\<exists>f. viewFile v = Some f \<and> \<not> isEnforcedLocked w (path f))
        \<or> mode st = None \<or> mode st = Some Preview \<longrightarrow>
         callSetState (setState (patchViewStateMethod v)) w (patchViewStateMethod v) st res =
           (w, (patchViewStateMethod v)\<lparr>state := st, hostCalls := hostCalls v @ [(st, res)]\<rparr>))"
proof -
  let ?pv = "patchViewStateMethod v"
  have inst: "setState ?pv = GuardedSetState HostSetState"
    using assms by (simp add: patchViewStateMethod_def)
  have rewrite: "callSetState (setState ?pv) w ?pv st res =
           (notify (lockedNotice (viewFile v)) w,
            ?pv\<lparr>state := st\<lparr>mode := Some Preview\<rparr>,
               hostCalls := hostCalls v @ [(st\<lparr>mode := Some Preview\<rparr>, res)]\<rparr>)"
    if "viewFile v = Some f" "path f \<noteq> []" "isEnforcedLocked w (path f)"
       "mode st \<noteq> None" "mode st \<noteq> Some Preview" for f
  proof -
    have "guardApplies w ?pv" using that(1-3) by (simp add: guardApplies_iff)
    moreover have "asksToLeavePreview st" using that(4,5) by (simp add: asksToLeavePreview_iff)
    ultimately show ?thesis
      using callSetState_guarded [of w ?pv st HostSetState res] by (simp add: inst)
  qed
  have pass: "callSetState (setState ?pv) w ?pv st res =
           (w, ?pv\<lparr>state := st, hostCalls := hostCalls v @ [(st, res)]\<rparr>)"
    if "viewFile v = None \<or> (\<exists>f. viewFile v = Some f \<and> \<not> isEnforcedLocked w (path f))
        \<or> mode st = None \<or> mode st = Some Preview"
  proof -
    have "\<not> (guardApplies w ?pv \<and> asksToLeavePreview st)"
      using that by (auto simp: guardApplies_def isEnforcedLocked_def asksToLeavePreview_iff)
    then show ?thesis
      using callSetState_pass [of w ?pv st "setState ?pv" res] by simp
  qed
  from inst rewrite pass show ?thesis by (simp add: patch_idem)
qed

theorem wrapper_installed_once_and_guards_witness:
  "notices (fst (callSetState
       (setState (patchViewStateMethod (freshView (mdFile ''B.md'' ''B'') previewState)))
       lockedPreviewWorld (patchViewStateMethod (freshView (mdFile ''B.md'' ''B'') previewState))
       sourceState \<lparr>history = True\<rparr>))
     = [lockedNotice (Some (mdFile ''B.md'' ''B''))]
   \<and> hostCalls (snd (callSetState
       (setState (patchViewStateMethod (freshView (mdFile ''B.md'' ''B'') previewState)))
       lockedPreviewWorld (patchViewStateMethod (freshView (mdFile ''B.md'' ''B'') previewState))
       sourceState \<lparr>history = True\<rparr>))
     = [(sourceState\<lparr>mode := Some Preview\<rparr>, \<lparr>history = True\<rparr>)]
   \<and> hostCalls (snd (callSetState
       (setState (patchViewStateMethod (freshView (mdFile ''B.md'' ''B'') previewState)))
       emptyWorld (patchViewStateMethod (freshView (mdFile ''B.md'' ''B'') previewState))
       sourceState \<lparr>history = True\<rparr>))
     = [(sourceState, \<lparr>history = True\<rparr>)]"
proof -
  let ?v = "freshView (mdFile ''B.md'' ''B'') previewState"
  let ?pv = "patchViewStateMethod ?v"
  let ?r = "\<lparr>history = True\<rparr>"
  have a: "setState ?v = HostSetState" "originalSetState ?v = None"
    by (simp_all add: freshView_def)
  have b: "viewFile ?v = Some (mdFile ''B.md'' ''B'') \<and> path (mdFile ''B.md'' ''B'') \<noteq> []
      \<and> isEnforcedLocked lockedPreviewWorld (path (mdFile ''B.md'' ''B''))
      \<and> mode sourceState \<noteq> None \<and> mode sourceState \<noteq> Some Preview"
    by (simp add: freshView_def mdFile_def isEnforcedLocked_def lockedPreviewWorld_def
        emptyWorld_def sourceState_def)
  have c: "\<exists>f. viewFile ?v = Some f \<and> \<not> isEnforcedLocked emptyWorld (path f)"
    by (simp add: freshView_def isEnforcedLocked_def emptyWorld_def)
  have d: "hostCalls ?v = []" "viewFile ?v = Some (mdFile ''B.md'' ''B'')"
    by (simp_all add: freshView_def)
  have e1: "callSetState (setState ?pv) lockedPreviewWorld ?pv sourceState ?r =
      (notify (lockedNotice (viewFile ?v)) lockedPreviewWorld,
       ?pv\<lparr>state := sourceState\<lparr>mode := Some Preview\<rparr>,
           hostCalls := hostCalls ?v @ [(sourceState\<lparr>mode := Some Preview\<rparr>, ?r)]\<rparr>)"
    using wrapper_installed_once_and_guards [OF a, of lockedPreviewWorld sourceState ?r] b by blast
  have e2: "callSetState (setState ?pv) emptyWorld ?pv sourceState ?r =
      (emptyWorld, ?pv\<lparr>state := sourceState, hostCalls := hostCalls ?v @ [(sourceState, ?r)]\<rparr>)"
    using wrapper_installed_once_and_guards [OF a, of emptyWorld sourceState ?r] c by blast
  show ?thesis
    unfolding e1 e2
    by (simp add: d notify_def lockedPreviewWorld_def emptyWorld_def)
qed

end
